theory Spec2Isabelle
  imports Complex_Main "HOL-Library.Log_Nat"
begin

section \<open>Python floats\<close>

text \<open>
  The service is Python; its \<^verbatim>\<open>float\<close> is an IEEE 754 binary64 number. A float is
  modelled by its exact value: a finite float is the rational it denotes, and the four
  values that denote no rational are constructors of their own. \<open>Fin 0\<close> is \<open>0.0\<close> and
  \<open>NegZero\<close> is \<open>-0.0\<close>. Python's \<^verbatim>\<open>int\<close> literals \<^verbatim>\<open>0\<close>, \<^verbatim>\<open>5\<close>, \<^verbatim>\<open>100\<close> meet floats only
  in arithmetic and comparisons, where Python converts them exactly, so they are written
  as the floats \<open>Fin 0\<close>, \<open>Fin 5\<close>, \<open>Fin 100\<close>.
\<close>

datatype pyfloat = Fin rat | NegZero | PInf | NInf | NaN

subsection \<open>Rounding to nearest, ties to even\<close>

text \<open>
  \<open>round_half_even\<close> is the integer next to a rational, the even one of the two at a tie.
  \<open>binade m\<close> is \<open>\<lfloor>log\<^sub>2 m\<rfloor>\<close> for \<open>m > 0\<close>, computed on integers. A binary64 number
  has 53 significant bits and no exponent below \<open>-1022\<close>, so the representable numbers
  around \<open>m\<close> are the multiples of \<open>quantum m\<close>, and \<open>round_mag m\<close> is the nearest of them.
  \<open>round_mag\<close> knows no largest exponent: \<open>to_double\<close> turns a rounded magnitude of
  \<open>2 ^ 1024\<close> or more, which is one whose binade is at least 1024, into an infinity.
\<close>

definition round_half_even :: "rat \<Rightarrow> int" where
  "round_half_even r =
     (let f = \<lfloor>r\<rfloor>; d = r - of_int f
      in if d < 1 / 2 then f else if 1 / 2 < d then f + 1 else if even f then f else f + 1)"

definition binade :: "rat \<Rightarrow> int" where
  "binade m = (if 1 \<le> m then bitlen \<lfloor>m\<rfloor> - 1 else - bitlen (\<lceil>1 / m\<rceil> - 1))"

definition quantum :: "rat \<Rightarrow> rat" where
  "quantum m = 2 powi (max (binade m) (- 1022) - 52)"

definition round_mag :: "rat \<Rightarrow> rat" where
  "round_mag m = (if m = 0 then 0 else of_int (round_half_even (m / quantum m)) * quantum m)"

text \<open>The float with sign \<open>neg\<close> and the magnitude nearest to \<open>m \<ge> 0\<close>.\<close>

definition to_double :: "bool \<Rightarrow> rat \<Rightarrow> pyfloat" where
  "to_double neg m =
     (let r = round_mag m
      in if 1024 \<le> binade r then (if neg then NInf else PInf)
         else if r = 0 then (if neg then NegZero else Fin 0)
         else Fin (if neg then - r else r))"

subsection \<open>Arithmetic and comparison\<close>

fun fval :: "pyfloat \<Rightarrow> rat" where
  "fval (Fin r) = r"
| "fval NegZero = 0"
| "fval PInf = 0"
| "fval NInf = 0"
| "fval NaN = 0"

fun is_neg :: "pyfloat \<Rightarrow> bool" where
  "is_neg (Fin r) = (r < 0)"
| "is_neg NegZero = True"
| "is_neg PInf = False"
| "is_neg NInf = True"
| "is_neg NaN = False"

fun is_inf :: "pyfloat \<Rightarrow> bool" where
  "is_inf PInf = True"
| "is_inf NInf = True"
| "is_inf x = False"

fun is_zero :: "pyfloat \<Rightarrow> bool" where
  "is_zero (Fin r) = (r = 0)"
| "is_zero NegZero = True"
| "is_zero x = False"

text \<open>\<open>rank\<close> places the infinities below and above every finite float.\<close>

fun rank :: "pyfloat \<Rightarrow> int" where
  "rank NInf = - 1"
| "rank PInf = 1"
| "rank x = 0"

text \<open>Python's \<^verbatim>\<open><\<close> and \<^verbatim>\<open><=\<close> on floats: false as soon as one side is NaN.\<close>

definition float_lt :: "pyfloat \<Rightarrow> pyfloat \<Rightarrow> bool" where
  "float_lt x y \<longleftrightarrow>
     x \<noteq> NaN \<and> y \<noteq> NaN \<and> (rank x < rank y \<or> rank x = rank y \<and> fval x < fval y)"

definition float_le :: "pyfloat \<Rightarrow> pyfloat \<Rightarrow> bool" where
  "float_le x y \<longleftrightarrow>
     x \<noteq> NaN \<and> y \<noteq> NaN \<and> (rank x < rank y \<or> rank x = rank y \<and> fval x \<le> fval y)"

text \<open>\<^verbatim>\<open>x >= y\<close> is \<^verbatim>\<open>y <= x\<close>.\<close>

definition float_ge :: "pyfloat \<Rightarrow> pyfloat \<Rightarrow> bool" where
  "float_ge x y = float_le y x"

fun float_neg :: "pyfloat \<Rightarrow> pyfloat" where
  "float_neg (Fin r) = (if r = 0 then NegZero else Fin (- r))"
| "float_neg NegZero = Fin 0"
| "float_neg PInf = NInf"
| "float_neg NInf = PInf"
| "float_neg NaN = NaN"

text \<open>
  \<^verbatim>\<open>x + y\<close>. An exact sum of zero is \<open>-0.0\<close> only when both operands are negative zeros.
\<close>

definition float_add :: "pyfloat \<Rightarrow> pyfloat \<Rightarrow> pyfloat" where
  "float_add x y =
     (if x = NaN \<or> y = NaN then NaN
      else if is_inf x \<and> is_inf y then (if x = y then x else NaN)
      else if is_inf x then x
      else if is_inf y then y
      else let r = fval x + fval y
           in to_double (if r = 0 then is_neg x \<and> is_neg y else r < 0) \<bar>r\<bar>)"

definition float_sub :: "pyfloat \<Rightarrow> pyfloat \<Rightarrow> pyfloat" where
  "float_sub x y = float_add x (float_neg y)"

definition float_mul :: "pyfloat \<Rightarrow> pyfloat \<Rightarrow> pyfloat" where
  "float_mul x y =
     (if x = NaN \<or> y = NaN then NaN
      else if is_inf x \<or> is_inf y then
        (if is_zero x \<or> is_zero y then NaN else if is_neg x \<noteq> is_neg y then NInf else PInf)
      else to_double (is_neg x \<noteq> is_neg y) \<bar>fval x * fval y\<bar>)"

text \<open>
  \<^verbatim>\<open>x / y\<close> for a divisor that is not zero. Python raises \<^verbatim>\<open>ZeroDivisionError\<close> on a zero
  divisor; the only division of this program has the literal \<^verbatim>\<open>5\<close> as its divisor, so
  that branch is not part of the model.
\<close>

definition float_div :: "pyfloat \<Rightarrow> pyfloat \<Rightarrow> pyfloat" where
  "float_div x y =
     (if x = NaN \<or> y = NaN then NaN
      else if is_inf x then (if is_inf y then NaN else if is_neg x \<noteq> is_neg y then NInf else PInf)
      else if is_inf y then (if is_neg x \<noteq> is_neg y then NegZero else Fin 0)
      else to_double (is_neg x \<noteq> is_neg y) \<bar>fval x / fval y\<bar>)"

text \<open>
  Python's two-argument \<^verbatim>\<open>max(a, b)\<close> and \<^verbatim>\<open>min(a, b)\<close> keep the first argument unless
  the second is strictly greater, respectively strictly smaller.
\<close>

definition py_max :: "pyfloat \<Rightarrow> pyfloat \<Rightarrow> pyfloat" where
  "py_max a b = (if float_lt a b then b else a)"

definition py_min :: "pyfloat \<Rightarrow> pyfloat \<Rightarrow> pyfloat" where
  "py_min a b = (if float_lt b a then b else a)"

section \<open>The score calculator\<close>

text \<open>
  \<^verbatim>\<open>calculate_livability_score\<close> of \<^verbatim>\<open>main.py\<close>. Its three local variables are functions of
  the arguments, named as in the source.
\<close>

definition solar_score :: "pyfloat \<Rightarrow> pyfloat" where
  "solar_score solar =
     py_min (py_max (float_mul (float_div solar (Fin 5)) (Fin 100)) (Fin 0)) (Fin 100)"

definition aqi_score :: "pyfloat \<Rightarrow> pyfloat" where
  "aqi_score aqi = py_max (Fin 0) (float_sub (Fin 100) aqi)"

definition combined_score :: "pyfloat \<Rightarrow> pyfloat \<Rightarrow> pyfloat" where
  "combined_score solar aqi =
     float_add (float_mul (Fin (1 / 2)) (solar_score solar))
               (float_mul (Fin (1 / 2)) (aqi_score aqi))"

definition calculate_livability_score :: "pyfloat \<Rightarrow> pyfloat \<Rightarrow> string \<times> int" where
  "calculate_livability_score solar aqi =
     (if float_ge (combined_score solar aqi) (Fin 70) then (''High'', 80)
      else if float_ge (combined_score solar aqi) (Fin 40) then (''Medium'', 50)
      else (''Low'', 20))"

section \<open>Python values and exceptions\<close>

text \<open>
  The values that \<^verbatim>\<open>response.json()\<close> can return, and that the request payload is built
  from. A \<^verbatim>\<open>dict\<close> with string keys is the list of its items; a key is looked up with
  \<open>map_of\<close>. An exception is the name of its class and the text \<^verbatim>\<open>str(e)\<close> gives for it.
  Only instances of \<^verbatim>\<open>Exception\<close> are modelled, which are the ones \<^verbatim>\<open>except Exception\<close>
  catches; the cancellation of the running task is not.
\<close>

datatype pyval =
    PNone
  | PBool bool
  | PInt int
  | PFloat pyfloat
  | PStr string
  | PList "pyval list"
  | PDict "(string \<times> pyval) list"

datatype pyexc = PyExc (exc_type: string) (exc_str: string)

fun type_name :: "pyval \<Rightarrow> string" where
  "type_name PNone = ''NoneType''"
| "type_name (PBool b) = ''bool''"
| "type_name (PInt i) = ''int''"
| "type_name (PFloat x) = ''float''"
| "type_name (PStr s) = ''str''"
| "type_name (PList xs) = ''list''"
| "type_name (PDict kvs) = ''dict''"

definition quoted :: "string \<Rightarrow> string" where
  "quoted s = CHR 0x27 # s @ [CHR 0x27]"

text \<open>\<^verbatim>\<open>x.get(key, default)\<close>: only a \<^verbatim>\<open>dict\<close> has the method.\<close>

fun py_get :: "pyval \<Rightarrow> string \<Rightarrow> pyval \<Rightarrow> pyexc + pyval" where
  "py_get (PDict kvs) key dflt =
     Inr (case map_of kvs key of Some v \<Rightarrow> v | None \<Rightarrow> dflt)"
| "py_get x key dflt =
     Inl (PyExc ''AttributeError''
            (quoted (type_name x) @ '' object has no attribute '' @ quoted ''get''))"

text \<open>
  \<^verbatim>\<open>x[0]\<close>. An empty list or string has no first element; a \<^verbatim>\<open>dict\<close> parsed from JSON has
  string keys only, so the key \<^verbatim>\<open>0\<close> is missing from it; the other values cannot be
  subscripted. The first character of a string stands for its first code point: the
  program applies \<^verbatim>\<open>.get\<close> to it next, which no string has.
\<close>

fun py_index0 :: "pyval \<Rightarrow> pyexc + pyval" where
  "py_index0 (PList []) = Inl (PyExc ''IndexError'' ''list index out of range'')"
| "py_index0 (PList (v # vs)) = Inr v"
| "py_index0 (PStr []) = Inl (PyExc ''IndexError'' ''string index out of range'')"
| "py_index0 (PStr (c # cs)) = Inr (PStr [c])"
| "py_index0 (PDict kvs) = Inl (PyExc ''KeyError'' ''0'')"
| "py_index0 x =
     Inl (PyExc ''TypeError'' (quoted (type_name x) @ '' object is not subscriptable''))"

text \<open>Sequencing: the first exception raised ends the evaluation.\<close>

definition and_then :: "pyexc + 'a \<Rightarrow> ('a \<Rightarrow> pyexc + 'b) \<Rightarrow> pyexc + 'b" where
  "and_then r f = (case r of Inl e \<Rightarrow> Inl e | Inr v \<Rightarrow> f v)"

section \<open>The outside world\<close>

text \<open>
  The request handed to \<^verbatim>\<open>client.post\<close>, and what the code observes of the answer: either
  the call raises (connection failure, timeout), or there is a response, of which the code
  reads the status through \<^verbatim>\<open>raise_for_status()\<close> and the body through \<^verbatim>\<open>json()\<close>.
  \<open>status_error\<close> is the exception \<^verbatim>\<open>raise_for_status()\<close> raises when the status is not a
  success; \<open>json\<close> is the value \<^verbatim>\<open>json()\<close> returns, or the exception it raises on a body
  that is not JSON.
\<close>

record request =
  url :: string
  headers :: "(string \<times> string) list"
  json_payload :: pyval
  timeout :: pyfloat

record response =
  status_code :: int
  status_error :: pyexc
  json :: "pyexc + pyval"

datatype outcome = Post_Raised pyexc | Responded response

text \<open>
  The world of one request: the process environment, the behaviour of the network and
  the remote service, and the outbound calls made so far.
\<close>

record world =
  environ :: "string \<rightharpoonup> string"
  remote :: "request \<Rightarrow> outcome"
  sent :: "request list"

section \<open>The explanation requester\<close>

text \<open>
  \<^verbatim>\<open>ask_gemini_analysis\<close> of \<^verbatim>\<open>main.py\<close>. The f-string formats each float with Python's
  \<^verbatim>\<open>str\<close>; that function is the parameter \<open>fmt\<close>. \<open>truthy\<close> is the test
  \<^verbatim>\<open>if image_base64:\<close> on an optional string.
\<close>

definition newline :: string where
  "newline = [CHR 0x0A]"

definition truthy :: "string option \<Rightarrow> bool" where
  "truthy s = (case s of None \<Rightarrow> False | Some t \<Rightarrow> t \<noteq> [])"

definition prompt_text ::
  "(pyfloat \<Rightarrow> string) \<Rightarrow> pyfloat \<Rightarrow> pyfloat \<Rightarrow> pyfloat \<Rightarrow> pyfloat \<Rightarrow> string option \<Rightarrow> string" where
  "prompt_text fmt lat lon solar aqi image_base64 =
     ''Location: lat='' @ fmt lat @ '', lon='' @ fmt lon @ newline
     @ ''Solar radiation score: '' @ fmt solar @ newline
     @ ''Air quality index: '' @ fmt aqi @ newline
     @ ''Explain the livability of this location based on these scores, ''
     @ ''and suggest interventions or improvements. ''
     @ (if truthy image_base64 then ''Analyze this image together with the scores.'' @ newline
        else [])"

definition gemini_url :: string where
  "gemini_url =
     ''https://generativelanguage.googleapis.com/v1beta/models/gemini-2.0-flash:generateContent''"

definition payload :: "string \<Rightarrow> string option \<Rightarrow> pyval" where
  "payload prompt image_base64 =
     PDict [(''contents'', PList [PDict [(''parts'', PList
        (PDict [(''text'', PStr prompt)]
         # (case image_base64 of
              None \<Rightarrow> []
            | Some data \<Rightarrow>
                if data = [] then []
                else [PDict [(''inline_data'',
                        PDict [(''mime_type'', PStr ''image/jpeg''),
                               (''data'', PStr data)])]])))]])]"

definition gemini_request :: "string \<Rightarrow> string \<Rightarrow> string option \<Rightarrow> request" where
  "gemini_request gemini_api_key prompt image_base64 =
     \<lparr>url = gemini_url @ ''?key='' @ gemini_api_key,
      headers = [(''Content-Type'', ''application/json'')],
      json_payload = payload prompt image_base64,
      timeout = Fin 30\<rparr>"

text \<open>The chain of \<^verbatim>\<open>.get\<close> and \<^verbatim>\<open>[0]\<close> applied to the parsed body.\<close>

definition extract_text :: "pyval \<Rightarrow> pyexc + pyval" where
  "extract_text gemini_data =
     and_then (py_get gemini_data ''candidates'' (PList [PDict []])) (\<lambda>candidates.
     and_then (py_index0 candidates) (\<lambda>candidate.
     and_then (py_get candidate ''content'' (PDict [])) (\<lambda>content.
     and_then (py_get content ''parts'' (PList [PDict []])) (\<lambda>parts.
     and_then (py_index0 parts) (\<lambda>part.
     py_get part ''text'' (PStr ''No AI analysis returned.''))))))"

text \<open>
  The body of the \<^verbatim>\<open>try\<close> block, given the outcome of the call: \<^verbatim>\<open>raise_for_status()\<close>
  raises unless the status is in 200..299, then the body is parsed and the text extracted.
\<close>

definition try_block :: "outcome \<Rightarrow> pyexc + pyval" where
  "try_block out =
     (case out of
        Post_Raised e \<Rightarrow> Inl e
      | Responded r \<Rightarrow>
          if 200 \<le> status_code r \<and> status_code r \<le> 299
          then and_then (json r) extract_text
          else Inl (status_error r))"

text \<open>
  The function returns the pair of its result and the world it leaves. The result is a
  value or an exception that escapes; the value is whatever the \<^verbatim>\<open>return\<close> statement
  holds, since Python does not check the annotation \<^verbatim>\<open>-> str\<close>.
\<close>

definition ask_gemini_analysis ::
  "(pyfloat \<Rightarrow> string) \<Rightarrow> world \<Rightarrow> pyfloat \<Rightarrow> pyfloat \<Rightarrow> pyfloat \<Rightarrow> pyfloat \<Rightarrow> string option
     \<Rightarrow> (pyexc + pyval) \<times> world" where
  "ask_gemini_analysis fmt w lat lon solar aqi image_base64 =
     (case environ w ''GEMINI_API_KEY'' of
        None \<Rightarrow> (Inr (PStr ''GEMINI_API_KEY not set. Skipping AI analysis.''), w)
      | Some gemini_api_key \<Rightarrow>
          if gemini_api_key = []
          then (Inr (PStr ''GEMINI_API_KEY not set. Skipping AI analysis.''), w)
          else
            let req = gemini_request gemini_api_key
                        (prompt_text fmt lat lon solar aqi image_base64) image_base64;
                w' = w\<lparr>sent := sent w @ [req]\<rparr>
            in (case try_block (remote w req) of
                  Inr analysis \<Rightarrow> (Inr analysis, w')
                | Inl e \<Rightarrow>
                    (Inr (PStr (''Failed to get Gemini AI analysis: '' @ exc_str e)), w')))"

section \<open>The endpoint\<close>

text \<open>
  \<^verbatim>\<open>get_livability_score\<close> of \<^verbatim>\<open>main.py\<close>, with the checks its signature declares:
  \<^verbatim>\<open>Query(..., ge=-90, le=90)\<close> on \<^verbatim>\<open>lat\<close> and \<^verbatim>\<open>Query(..., ge=-180, le=180)\<close> on \<^verbatim>\<open>lon\<close>, none
  on \<^verbatim>\<open>solar\<close> and \<^verbatim>\<open>aqi\<close>. The framework answers a request that fails a check with status
  422 and does not call the function body. The four parameters are floats already: a
  missing parameter or one that is not a number is rejected before this point. The field
  \<open>gemini_analysis\<close> holds the value the requester returned; the check of the declared
  field types when the result object is built is not modelled.
\<close>

record LivabilityResult =
  location_latitude :: pyfloat
  location_longitude :: pyfloat
  solar_radiation_score :: pyfloat
  air_quality_index :: pyfloat
  calculated_livability_score :: string
  estimated_habitable_years :: int
  gemini_analysis :: pyval
  data_source :: string

datatype failure = Rejected "string list" | Raised pyexc

definition query_ge_le :: "pyfloat \<Rightarrow> pyfloat \<Rightarrow> pyfloat \<Rightarrow> bool" where
  "query_ge_le lo hi x \<longleftrightarrow> float_ge x lo \<and> float_le x hi"

definition invalid_parameters :: "pyfloat \<Rightarrow> pyfloat \<Rightarrow> string list" where
  "invalid_parameters lat lon =
     (if query_ge_le (Fin (- 90)) (Fin 90) lat then [] else [''lat''])
     @ (if query_ge_le (Fin (- 180)) (Fin 180) lon then [] else [''lon''])"

definition get_livability_score ::
  "(pyfloat \<Rightarrow> string) \<Rightarrow> world \<Rightarrow> pyfloat \<Rightarrow> pyfloat \<Rightarrow> pyfloat \<Rightarrow> pyfloat
     \<Rightarrow> (failure + LivabilityResult) \<times> world" where
  "get_livability_score fmt w lat lon solar aqi =
     (if invalid_parameters lat lon \<noteq> [] then (Inl (Rejected (invalid_parameters lat lon)), w)
      else
        let (score_label, habitable_years) = calculate_livability_score solar aqi;
            (gemini_text, w') = ask_gemini_analysis fmt w lat lon solar aqi None
        in (case gemini_text of
              Inl e \<Rightarrow> (Inl (Raised e), w')
            | Inr analysis \<Rightarrow>
                (Inr \<lparr>location_latitude = lat,
                      location_longitude = lon,
                      solar_radiation_score = solar,
                      air_quality_index = aqi,
                      calculated_livability_score = score_label,
                      estimated_habitable_years = habitable_years,
                      gemini_analysis = analysis,
                      data_source = ''Solar Radiation + AQI dataset + Eco Prediction Insight''\<rparr>,
                 w')))"

section \<open>Example worlds\<close>

text \<open>
  A world whose environment holds the API key \<open>key\<close>, if any, and nothing else, whose
  service answers every request with \<open>out\<close>, and in which no call has been made yet.
  \<open>reply body\<close> is a response with status 200 whose body parses to \<open>body\<close>.
\<close>

definition world_with :: "string option \<Rightarrow> outcome \<Rightarrow> world" where
  "world_with key out =
     \<lparr>environ = (\<lambda>name. if name = ''GEMINI_API_KEY'' then key else None),
      remote = (\<lambda>req. out),
      sent = []\<rparr>"

definition reply :: "pyval \<Rightarrow> outcome" where
  "reply body =
     Responded \<lparr>status_code = 200,
                status_error = PyExc ''HTTPStatusError'' [],
                json = Inr body\<rparr>"

section \<open>Rounding\<close>

subsection \<open>Binades\<close>

text \<open>
  \<open>binade m\<close> is the exponent of the power of two at or below \<open>m\<close>, and the only one
  with that property.
\<close>

lemma binade_bounds_ge1:
  assumes "1 \<le> m"
  shows "2 powi (binade m) \<le> m \<and> m < 2 powi (binade m + 1)"
proof -
  define n where "n = \<lfloor>m\<rfloor>"
  have n1: "1 \<le> n" using assms by (simp add: n_def)
  then have npos: "0 < n" by simp
  have bl: "1 \<le> bitlen n" using npos by (simp add: bitlen_alt_def)
  from bitlen_bounds [OF npos]
  have lo: "2 ^ nat (bitlen n - 1) \<le> n" and hi: "n < 2 ^ nat (bitlen n)" by simp_all
  have e: "binade m = bitlen n - 1" using assms by (simp add: binade_def n_def)
  have "(of_int (2 ^ nat (bitlen n - 1)) :: rat) \<le> of_int n" using lo by (simp only: of_int_le_iff)
  also have "\<dots> \<le> m" by (simp add: n_def)
  finally have A: "2 powi (binade m) \<le> m" using bl by (simp add: e power_int_def)
  have "n + 1 \<le> 2 ^ nat (bitlen n)" using hi by simp
  then have "(of_int (n + 1) :: rat) \<le> of_int (2 ^ nat (bitlen n))" by (simp only: of_int_le_iff)
  moreover have "m < of_int (n + 1)" unfolding n_def by linarith
  ultimately have "m < of_int (2 ^ nat (bitlen n))" by linarith
  then have B: "m < 2 powi (binade m + 1)" using bl by (simp add: e power_int_def)
  from A B show ?thesis ..
qed

lemma binade_bounds_lt1:
  assumes "0 < m" "m < 1"
  shows "2 powi (binade m) \<le> m \<and> m < 2 powi (binade m + 1)"
proof -
  define c where "c = \<lceil>1 / m\<rceil>"
  define k where "k = bitlen (c - 1)"
  have y1: "1 < 1 / m" using assms by simp
  then have c2: "2 \<le> c" unfolding c_def by (simp add: le_ceiling_iff)
  then have cpos: "0 < c - 1" by simp
  have k1: "1 \<le> k" using cpos by (simp add: k_def bitlen_alt_def)
  from bitlen_bounds [OF cpos]
  have lo: "2 ^ nat (k - 1) \<le> c - 1" and hi: "c - 1 < 2 ^ nat k" by (simp_all add: k_def)
  have e: "binade m = - k" using assms by (simp add: binade_def c_def k_def)
  have "c \<le> 2 ^ nat k" using hi by simp
  then have "(of_int c :: rat) \<le> of_int (2 ^ nat k)" by (simp only: of_int_le_iff)
  then have "(of_int c :: rat) \<le> 2 ^ nat k" by simp
  moreover have "1 / m \<le> of_int c" unfolding c_def by simp
  ultimately have "1 / m \<le> 2 ^ nat k" by linarith
  then have "1 \<le> 2 ^ nat k * m" using assms by (simp add: field_simps)
  then have "1 / 2 ^ nat k \<le> m" by (simp add: field_simps)
  then have A: "2 powi (binade m) \<le> m" using k1 by (simp add: e power_int_def field_simps)
  have "(of_int (2 ^ nat (k - 1)) :: rat) \<le> of_int (c - 1)" using lo by (simp only: of_int_le_iff)
  then have "(2 ^ nat (k - 1) :: rat) \<le> of_int c - 1" by simp
  moreover have "of_int c - 1 < 1 / m" unfolding c_def by linarith
  ultimately have "2 ^ nat (k - 1) < 1 / m" by linarith
  then have "2 ^ nat (k - 1) * m < 1" using assms by (simp add: field_simps)
  then have "m < 1 / 2 ^ nat (k - 1)" by (simp add: field_simps)
  moreover have "2 powi (binade m + 1) = (1::rat) / 2 ^ nat (k - 1)"
  proof (cases "k = 1")
    case True then show ?thesis by (simp add: e)
  next
    case False
    then have "- k + 1 < 0" using k1 by simp
    moreover have "nat (k - 1) = nat (- (- k + 1))" by simp
    ultimately show ?thesis unfolding e power_int_def by (simp add: field_simps)
  qed
  ultimately have B: "m < 2 powi (binade m + 1)" by simp
  from A B show ?thesis ..
qed

lemma binade_bounds:
  "0 < m \<Longrightarrow> 2 powi (binade m) \<le> m \<and> m < 2 powi (binade m + 1)"
  using binade_bounds_ge1 [of m] binade_bounds_lt1 [of m] by (cases "1 \<le> m") auto

lemma binade_unique:
  assumes "0 < m" "2 powi e \<le> m" "m < 2 powi (e + 1)"
  shows "binade m = e"
proof -
  from binade_bounds [OF assms(1)]
  have lo: "2 powi (binade m) \<le> m" and hi: "m < 2 powi (binade m + 1)" by simp_all
  have "\<not> e + 1 \<le> binade m"
  proof
    assume "e + 1 \<le> binade m"
    then have "(2::rat) powi (e + 1) \<le> 2 powi (binade m)" by (intro power_int_increasing) simp_all
    with lo assms(3) show False by linarith
  qed
  moreover have "\<not> binade m + 1 \<le> e"
  proof
    assume "binade m + 1 \<le> e"
    then have "(2::rat) powi (binade m + 1) \<le> 2 powi e" by (intro power_int_increasing) simp_all
    with hi assms(2) show False by linarith
  qed
  ultimately show ?thesis by linarith
qed

lemma binade_mono:
  assumes "0 < x" "x \<le> y"
  shows "binade x \<le> binade y"
proof (rule ccontr)
  assume "\<not> binade x \<le> binade y"
  then have "binade y + 1 \<le> binade x" by simp
  then have "(2::rat) powi (binade y + 1) \<le> 2 powi (binade x)"
    by (intro power_int_increasing) simp_all
  moreover have "2 powi (binade x) \<le> x" using binade_bounds [OF assms(1)] by simp
  moreover have "y < 2 powi (binade y + 1)" using binade_bounds [of y] assms by simp
  ultimately show False using assms(2) by linarith
qed

lemma binade_pow2: "binade (2 powi k) = k"
  by (rule binade_unique) (simp_all add: power_int_strict_increasing)

lemma binade_0: "binade 0 = 0"
  by (simp add: binade_def bitlen_alt_def)

subsection \<open>Rounding to an integer\<close>

lemma round_half_even_of_int: "round_half_even (of_int n) = n"
  by (simp add: round_half_even_def)

lemma round_half_even_floor: "\<lfloor>r\<rfloor> \<le> round_half_even r"
  by (simp add: round_half_even_def Let_def)

lemma round_half_even_ceil: "round_half_even r \<le> \<lfloor>r\<rfloor> + 1"
  by (simp add: round_half_even_def Let_def)

lemma round_half_even_mono:
  assumes "x \<le> y"
  shows "round_half_even x \<le> round_half_even y"
proof (cases "\<lfloor>x\<rfloor> = \<lfloor>y\<rfloor>")
  case True
  then have "x - of_int \<lfloor>x\<rfloor> \<le> y - of_int \<lfloor>y\<rfloor>" using assms by simp
  then show ?thesis using True by (auto simp add: round_half_even_def Let_def)
next
  case False
  moreover have "\<lfloor>x\<rfloor> \<le> \<lfloor>y\<rfloor>" using assms by (rule floor_mono)
  ultimately have "\<lfloor>x\<rfloor> + 1 \<le> \<lfloor>y\<rfloor>" by simp
  then show ?thesis
    using round_half_even_ceil [of x] round_half_even_floor [of y] by linarith
qed

lemma round_half_even_le:
  "r \<le> of_int n \<Longrightarrow> round_half_even r \<le> n"
  using round_half_even_mono [of r "of_int n"] by (simp add: round_half_even_of_int)

lemma round_half_even_ge:
  "of_int n \<le> r \<Longrightarrow> n \<le> round_half_even r"
  using round_half_even_mono [of "of_int n" r] by (simp add: round_half_even_of_int)


lemma round_half_even_upto_half:
  assumes "r \<le> of_int n + 1 / 2" "even n"
  shows "round_half_even r \<le> n"
proof (cases "\<lfloor>r\<rfloor> = n")
  case True
  then have "r - of_int \<lfloor>r\<rfloor> \<le> 1 / 2" using assms by simp
  then show ?thesis using True assms(2) by (auto simp add: round_half_even_def Let_def)
next
  case False
  have "r < of_int (n + 1)" using assms by simp
  then have "\<lfloor>r\<rfloor> < n + 1" by (simp only: floor_less_iff)
  with False have "\<lfloor>r\<rfloor> + 1 \<le> n" by simp
  then show ?thesis using round_half_even_ceil [of r] by linarith
qed

lemma round_half_even_below_half:
  assumes "0 \<le> r" "r < 1 / 2"
  shows "round_half_even r = 0"
proof -
  have "\<lfloor>r\<rfloor> = 0" using assms by (intro floor_unique) simp_all
  then show ?thesis using assms(2) by (simp add: round_half_even_def)
qed

subsection \<open>Rounding to a float\<close>

text \<open>
  A rounded magnitude stays within the binade of its argument, closed above. Rounding
  is therefore monotone: inside a binade because rounding to an integer is, across
  binades because the power of two between them is on the grid of both.
\<close>

lemma quantum_pos: "0 < quantum m"
  by (simp add: quantum_def)

lemma pow2_split53: "(2::rat) powi (e + 1) = 2 ^ 53 * 2 powi (e - 52)"
  using power_int_add [of "2::rat" 53 "e - 52"] by (simp add: add.commute)

lemma pow2_split52: "(2::rat) powi e = 2 ^ 52 * 2 powi (e - 52)"
  using power_int_add [of "2::rat" 52 "e - 52"] by simp

lemma round_mag_nonneg:
  assumes "0 \<le> m"
  shows "0 \<le> round_mag m"
proof -
  have "of_int 0 \<le> m / quantum m" using assms quantum_pos [of m] by simp
  then have "0 \<le> round_half_even (m / quantum m)" by (rule round_half_even_ge)
  then show ?thesis using quantum_pos [of m] by (simp add: round_mag_def)
qed

lemma round_mag_upper:
  assumes "0 < m"
  shows "round_mag m \<le> 2 powi (max (binade m) (- 1022) + 1)"
proof -
  define e where "e = max (binade m) (- 1022)"
  have q: "quantum m = 2 powi (e - 52)" by (simp add: quantum_def e_def)
  have qpos: "0 < quantum m" by (rule quantum_pos)
  have "m < 2 powi (binade m + 1)" using binade_bounds [OF assms] by simp
  also have "\<dots> \<le> 2 powi (e + 1)" by (intro power_int_increasing) (simp_all add: e_def)
  also have "\<dots> = 2 ^ 53 * quantum m" unfolding q by (rule pow2_split53)
  finally have "m / quantum m < 2 ^ 53" using qpos by (simp add: field_simps)
  then have "m / quantum m \<le> of_int (2 ^ 53)" by simp
  then have "round_half_even (m / quantum m) \<le> 2 ^ 53" by (rule round_half_even_le)
  then have "(of_int (round_half_even (m / quantum m)) :: rat) \<le> of_int (2 ^ 53)"
    by (simp only: of_int_le_iff)
  then have "of_int (round_half_even (m / quantum m)) * quantum m \<le> 2 ^ 53 * quantum m"
    using qpos by simp
  also have "2 ^ 53 * quantum m = 2 powi (e + 1)" unfolding q by (rule pow2_split53 [symmetric])
  finally show ?thesis using assms by (simp add: round_mag_def e_def)
qed

lemma round_mag_lower:
  assumes "0 < m" "- 1022 \<le> binade m"
  shows "2 powi (binade m) \<le> round_mag m"
proof -
  have q: "quantum m = 2 powi (binade m - 52)" using assms(2) by (simp add: quantum_def max_def)
  have qpos: "0 < quantum m" by (rule quantum_pos)
  have "2 ^ 52 * quantum m = 2 powi (binade m)" unfolding q by (rule pow2_split52 [symmetric])
  also have "\<dots> \<le> m" using binade_bounds [OF assms(1)] by simp
  finally have "2 ^ 52 \<le> m / quantum m" using qpos by (simp add: field_simps)
  then have "of_int (2 ^ 52) \<le> m / quantum m" by simp
  then have "2 ^ 52 \<le> round_half_even (m / quantum m)" by (rule round_half_even_ge)
  then have "(of_int (2 ^ 52) :: rat) \<le> of_int (round_half_even (m / quantum m))"
    by (simp only: of_int_le_iff)
  then have "2 ^ 52 * quantum m \<le> of_int (round_half_even (m / quantum m)) * quantum m"
    using qpos by simp
  moreover have "2 ^ 52 * quantum m = 2 powi (binade m)"
    unfolding q by (rule pow2_split52 [symmetric])
  ultimately show ?thesis using assms(1) by (simp add: round_mag_def)
qed

lemma round_mag_mono:
  assumes "0 \<le> x" "x \<le> y"
  shows "round_mag x \<le> round_mag y"
proof (cases "x = 0")
  case True
  then show ?thesis using round_mag_nonneg [of y] assms by (simp add: round_mag_def)
next
  case False
  then have xpos: "0 < x" and ypos: "0 < y" using assms by simp_all
  define ex where "ex = max (binade x) (- 1022)"
  define ey where "ey = max (binade y) (- 1022)"
  have le: "ex \<le> ey" using binade_mono [OF xpos assms(2)] by (simp add: ex_def ey_def)
  show ?thesis
  proof (cases "ex = ey")
    case True
    then have q: "quantum x = quantum y" by (simp add: quantum_def ex_def ey_def)
    have "x / quantum y \<le> y / quantum y" using assms quantum_pos [of y] by (simp add: divide_right_mono)
    then have "round_half_even (x / quantum y) \<le> round_half_even (y / quantum y)"
      by (rule round_half_even_mono)
    then have "(of_int (round_half_even (x / quantum y)) :: rat) \<le> of_int (round_half_even (y / quantum y))"
      by (simp only: of_int_le_iff)
    then show ?thesis using quantum_pos [of y] xpos ypos by (simp add: round_mag_def q)
  next
    case False
    with le have lt: "ex + 1 \<le> ey" by simp
    then have "- 1022 < ey" by (simp add: ex_def)
    then have ey: "ey = binade y" and biny: "- 1022 \<le> binade y" by (simp_all add: ey_def max_def split: if_splits)
    have "round_mag x \<le> 2 powi (ex + 1)" using round_mag_upper [OF xpos] by (simp add: ex_def)
    also have "\<dots> \<le> 2 powi ey" using lt by (intro power_int_increasing) simp_all
    also have "\<dots> \<le> round_mag y" unfolding ey by (rule round_mag_lower [OF ypos biny])
    finally show ?thesis .
  qed
qed

text \<open>
  A number with at most 53 significant bits and an exponent in range, which is what a
  finite binary64 float is, is its own rounding.
\<close>

lemma round_mag_exact:
  fixes n k :: int
  assumes "0 < n" "n < 2 ^ 53" "- 1074 \<le> k"
  shows "round_mag (of_int n * 2 powi k) = of_int n * 2 powi k"
proof -
  define m :: rat where "m = of_int n * 2 powi k"
  define b where "b = bitlen n - 1"
  have mpos: "0 < m" using assms(1) by (simp add: m_def)
  have b0: "0 \<le> b" using assms(1) by (simp add: b_def bitlen_alt_def)
  from bitlen_bounds [OF assms(1)]
  have lo: "2 ^ nat b \<le> n" and hi: "n < 2 ^ nat (b + 1)" by (simp_all add: b_def)
  have b52: "b \<le> 52"
  proof (rule ccontr)
    assume "\<not> b \<le> 52"
    then have "53 \<le> nat b" by simp
    then have "(2::int) ^ 53 \<le> 2 ^ nat b" by (intro power_increasing) simp_all
    with lo assms(2) show False by linarith
  qed
  have "(of_int (2 ^ nat b) :: rat) \<le> of_int n" using lo by (simp only: of_int_le_iff)
  then have "(2::rat) powi b \<le> of_int n" using b0 by (simp add: power_int_def)
  then have "2 powi b * 2 powi k \<le> m" unfolding m_def by (intro mult_right_mono) simp_all
  then have A: "2 powi (b + k) \<le> m" by (simp add: power_int_add)
  have "(of_int n :: rat) < of_int (2 ^ nat (b + 1))" using hi by (simp only: of_int_less_iff)
  then have "(of_int n :: rat) < 2 powi (b + 1)" using b0 by (simp add: power_int_def)
  then have "m < 2 powi (b + 1) * 2 powi k" unfolding m_def by (intro mult_strict_right_mono) simp_all
  then have B: "m < 2 powi (b + k + 1)" by (simp add: power_int_add add.commute add.left_commute)
  have bin: "binade m = b + k" using mpos A B by (rule binade_unique)
  define e where "e = max (b + k) (- 1022)"
  define j where "j = k - (e - 52)"
  have j0: "0 \<le> j" using b52 assms(3) by (simp add: j_def e_def max_def)
  have q: "quantum m = 2 powi (e - 52)" by (simp add: quantum_def bin e_def)
  have "2 powi k = (2::rat) powi j * 2 powi (e - 52)"
    using power_int_add [of "2::rat" j "e - 52"] by (simp add: j_def)
  then have mq: "m = of_int (n * 2 ^ nat j) * 2 powi (e - 52)"
    using j0 by (simp add: m_def power_int_def)
  have "m / quantum m = of_int (n * 2 ^ nat j)"
    unfolding q by (subst mq) simp
  then have "round_half_even (m / quantum m) = n * 2 ^ nat j"
    by (simp only: round_half_even_of_int)
  then have "round_mag m = of_int (n * 2 ^ nat j) * 2 powi (e - 52)"
    using mpos by (simp add: round_mag_def q)
  also have "\<dots> = m" by (rule mq [symmetric])
  finally show ?thesis by (simp only: m_def)
qed

lemma no_overflow:
  assumes "0 < m" "binade m < 1023"
  shows "binade (round_mag m) < 1024"
proof (cases "round_mag m = 0")
  case True
  then show ?thesis by (simp add: binade_0)
next
  case False
  then have pos: "0 < round_mag m" using round_mag_nonneg [of m] assms(1) by simp
  define e where "e = max (binade m) (- 1022)"
  have "round_mag m \<le> 2 powi (e + 1)" unfolding e_def by (rule round_mag_upper [OF assms(1)])
  with pos have "binade (round_mag m) \<le> binade (2 powi (e + 1))" by (rule binade_mono)
  then have "binade (round_mag m) \<le> e + 1" by (simp only: binade_pow2)
  moreover have "e < 1023" using assms(2) by (simp add: e_def)
  ultimately show ?thesis by simp
qed




section \<open>Floats\<close>

subsection \<open>The result of an operation\<close>

lemma to_double_not_NaN: "to_double n m \<noteq> NaN"
  by (simp add: to_double_def Let_def)

lemma rank_to_double:
  "rank (to_double n m) = (if 1024 \<le> binade (round_mag m) then (if n then - 1 else 1) else 0)"
  by (simp add: to_double_def Let_def)

lemma fval_to_double:
  "fval (to_double n m) =
     (if 1024 \<le> binade (round_mag m) then 0 else if n then - round_mag m else round_mag m)"
  by (simp add: to_double_def Let_def)

lemma is_inf_to_double: "is_inf (to_double n m) \<longleftrightarrow> 1024 \<le> binade (round_mag m)"
  by (simp add: to_double_def Let_def)

lemma to_double_overflow:
  assumes "2 powi 1024 \<le> m"
  shows "to_double neg m = (if neg then NInf else PInf)"
proof -
  have pos: "0 < m" using assms zero_less_power_int [of "2::rat" 1024] by linarith
  have "binade (2 powi 1024) \<le> binade m" using assms by (intro binade_mono) simp_all
  then have b: "1024 \<le> binade m" by (simp only: binade_pow2)
  then have "(2::rat) powi 1024 \<le> 2 powi (binade m)" by (intro power_int_increasing) simp_all
  also have "\<dots> \<le> round_mag m" using b by (intro round_mag_lower [OF pos]) simp
  finally have "binade (2 powi 1024) \<le> binade (round_mag m)" by (intro binade_mono) simp_all
  then have "1024 \<le> binade (round_mag m)" by (simp only: binade_pow2)
  then show ?thesis by (simp add: to_double_def Let_def)
qed

lemma to_double_underflow:
  assumes "0 \<le> m" "m < 2 powi (- 1075)"
  shows "to_double neg m = (if neg then NegZero else Fin 0)"
proof -
  have "round_mag m = 0"
  proof (cases "m = 0")
    case True
    then show ?thesis by (simp add: round_mag_def)
  next
    case False
    then have pos: "0 < m" using assms(1) by simp
    have "\<not> - 1075 \<le> binade m"
    proof
      assume "- 1075 \<le> binade m"
      then have "(2::rat) powi (- 1075) \<le> 2 powi (binade m)" by (intro power_int_increasing) simp_all
      also have "\<dots> \<le> m" using binade_bounds [OF pos] by simp
      finally show False using assms(2) by simp
    qed
    then have q: "quantum m = 2 powi (- 1074)" by (simp add: quantum_def max_def)
    have "(2::rat) powi (- 1075) * 2 = 2 powi (- 1074)"
      using power_int_add [of "2::rat" "- 1075" 1] by simp
    then have "m / 2 powi (- 1074) < 1 / 2" using assms(2)
      by (simp add: field_simps del: power_int_numeral_neg_numeral)
    moreover have "0 \<le> m / 2 powi (- 1074)" using assms(1) by simp
    ultimately have "round_half_even (m / 2 powi (- 1074)) = 0"
      by (intro round_half_even_below_half)
    then show ?thesis using pos by (simp add: round_mag_def q del: power_int_numeral_neg_numeral)
  qed
  moreover have "binade 0 = 0" by (rule binade_0)
  ultimately show ?thesis by (simp add: to_double_def Let_def)
qed

text \<open>
  Three values that Python prints for \<^verbatim>\<open>0.1\<close>, \<^verbatim>\<open>0.1 + 0.2\<close> and \<^verbatim>\<open>3 / 5\<close>, as exact
  fractions: \<^verbatim>\<open>0.1\<close> is \<open>3602879701896397 / 2\<^sup>5\<^sup>5\<close>, and \<^verbatim>\<open>0.1 + 0.2\<close> is
  \<^verbatim>\<open>0.30000000000000004\<close>.
\<close>

lemma one_tenth: "to_double False (1 / 10) = Fin (3602879701896397 / 2 ^ 55)"
  by code_simp

lemma one_tenth_plus_two_tenths:
  "float_add (Fin (3602879701896397 / 2 ^ 55)) (Fin (3602879701896397 / 2 ^ 54)) =
     Fin (1351079888211149 / 2 ^ 52)"
  by code_simp

lemma three_fifths: "float_div (Fin 3) (Fin 5) = Fin (5404319552844595 / 2 ^ 53)"
  by code_simp

lemma overflow_mono:
  assumes "0 \<le> x" "x \<le> y" "1024 \<le> binade (round_mag x)"
  shows "1024 \<le> binade (round_mag y)"
proof -
  have "round_mag x \<noteq> 0" using assms(3) by (auto simp add: binade_0)
  then have "0 < round_mag x" using round_mag_nonneg [OF assms(1)] by simp
  moreover have "round_mag x \<le> round_mag y" using assms by (intro round_mag_mono)
  ultimately have "binade (round_mag x) \<le> binade (round_mag y)" by (rule binade_mono)
  with assms(3) show ?thesis by simp
qed

lemma to_double_mono:
  assumes "0 \<le> m1" "0 \<le> m2"
    and "(if n1 then - m1 else m1) \<le> (if n2 then - m2 else m2)"
  shows "float_le (to_double n1 m1) (to_double n2 m2)"
proof -
  have r1: "0 \<le> round_mag m1" and r2: "0 \<le> round_mag m2"
    using assms by (simp_all add: round_mag_nonneg)
  consider (pp) "\<not> n1" "\<not> n2" "m1 \<le> m2" | (nn) "n1" "n2" "m2 \<le> m1"
    | (np) "n1" "\<not> n2" | (pn) "\<not> n1" "n2" "m1 = 0" "m2 = 0"
    using assms by (cases n1; cases n2) auto
  then show ?thesis
  proof cases
    case pp
    then show ?thesis
      using round_mag_mono [OF assms(1), of m2] overflow_mono [OF assms(1), of m2] r1 r2
      by (simp add: float_le_def to_double_not_NaN rank_to_double fval_to_double)
  next
    case nn
    then show ?thesis
      using round_mag_mono [OF assms(2), of m1] overflow_mono [OF assms(2), of m1] r1 r2
      by (simp add: float_le_def to_double_not_NaN rank_to_double fval_to_double)
  next
    case np
    then show ?thesis using r1 r2
      by (simp add: float_le_def to_double_not_NaN rank_to_double fval_to_double)
  next
    case pn
    then show ?thesis
      by (simp add: float_le_def to_double_not_NaN rank_to_double fval_to_double round_mag_def binade_0)
  qed
qed

subsection \<open>The order\<close>

text \<open>
  \<open>float_le\<close> is a preorder on the floats other than NaN, in which the two zeros are
  equivalent.
\<close>

lemma float_le_not_NaN: "float_le x y \<Longrightarrow> x \<noteq> NaN \<and> y \<noteq> NaN"
  by (simp add: float_le_def)

lemma float_le_refl: "x \<noteq> NaN \<Longrightarrow> float_le x x"
  by (simp add: float_le_def)

lemma float_le_trans: "float_le x y \<Longrightarrow> float_le y z \<Longrightarrow> float_le x z"
  by (auto simp add: float_le_def)


lemma float_le_not_lt: "float_le x y \<Longrightarrow> \<not> float_lt y x"
  by (auto simp add: float_lt_def float_le_def)



subsection \<open>Monotone operations\<close>

text \<open>
  Multiplying or dividing by a positive constant, adding to a finite float, and
  \<open>py_max\<close> and \<open>py_min\<close> against a constant are monotone; negation is antitone.
\<close>

lemma signed_abs_fval:
  "x \<noteq> NaN \<Longrightarrow> \<not> is_inf x \<Longrightarrow> (if is_neg x then - \<bar>fval x\<bar> else \<bar>fval x\<bar>) = fval x"
  by (cases x) auto

lemma float_mul_commute: "float_mul x y = float_mul y x"
  by (auto simp add: float_mul_def mult.commute)

lemma float_add_commute: "float_add x y = float_add y x"
  by (cases x; cases y) (auto simp add: float_add_def Let_def add.commute conj_commute)

lemma float_mul_const_not_NaN:
  "0 < c \<Longrightarrow> x \<noteq> NaN \<Longrightarrow> float_mul x (Fin c) \<noteq> NaN"
  by (cases x) (auto simp add: float_mul_def to_double_not_NaN)

lemma float_mul_const_mono:
  assumes "0 < c" "float_le x y"
  shows "float_le (float_mul x (Fin c)) (float_mul y (Fin c))"
proof -
  have nn: "x \<noteq> NaN" "y \<noteq> NaN" using assms(2) by (simp_all add: float_le_def)
  show ?thesis
  proof (cases "is_inf x \<or> is_inf y")
    case True
    then show ?thesis using assms nn
      by (cases x; cases y) (auto simp add: float_mul_def float_le_def to_double_not_NaN rank_to_double fval_to_double)
  next
    case False
    then have fx: "\<not> is_inf x" and fy: "\<not> is_inf y" by simp_all
    have v: "fval x \<le> fval y" using assms(2) fx fy by (cases x; cases y) (auto simp add: float_le_def)
    have sx: "(if is_neg x then - \<bar>fval x * c\<bar> else \<bar>fval x * c\<bar>) = fval x * c"
      using signed_abs_fval [OF nn(1) fx] assms(1) by (auto simp add: abs_mult split: if_splits)
    have sy: "(if is_neg y then - \<bar>fval y * c\<bar> else \<bar>fval y * c\<bar>) = fval y * c"
      using signed_abs_fval [OF nn(2) fy] assms(1) by (auto simp add: abs_mult split: if_splits)
    have "fval x * c \<le> fval y * c" using v assms(1) by simp
    then have "float_le (to_double (is_neg x) \<bar>fval x * c\<bar>) (to_double (is_neg y) \<bar>fval y * c\<bar>)"
      by (intro to_double_mono) (simp_all only: sx sy abs_ge_zero)
    then show ?thesis using nn fx fy assms(1) by (simp add: float_mul_def)
  qed
qed

lemma float_div_const_mono:
  assumes "0 < c" "float_le x y"
  shows "float_le (float_div x (Fin c)) (float_div y (Fin c))"
proof -
  have nn: "x \<noteq> NaN" "y \<noteq> NaN" using assms(2) by (simp_all add: float_le_def)
  show ?thesis
  proof (cases "is_inf x \<or> is_inf y")
    case True
    then show ?thesis using assms nn
      by (cases x; cases y) (auto simp add: float_div_def float_le_def to_double_not_NaN rank_to_double fval_to_double)
  next
    case False
    then have fx: "\<not> is_inf x" and fy: "\<not> is_inf y" by simp_all
    have v: "fval x \<le> fval y" using assms(2) fx fy by (cases x; cases y) (auto simp add: float_le_def)
    have sx: "(if is_neg x then - \<bar>fval x / c\<bar> else \<bar>fval x / c\<bar>) = fval x / c"
      using signed_abs_fval [OF nn(1) fx] assms(1) by (auto split: if_splits)
    have sy: "(if is_neg y then - \<bar>fval y / c\<bar> else \<bar>fval y / c\<bar>) = fval y / c"
      using signed_abs_fval [OF nn(2) fy] assms(1) by (auto split: if_splits)
    have "fval x / c \<le> fval y / c" using v assms(1) by (simp add: divide_right_mono)
    then have "float_le (to_double (is_neg x) \<bar>fval x / c\<bar>) (to_double (is_neg y) \<bar>fval y / c\<bar>)"
      by (intro to_double_mono) (simp_all only: sx sy abs_ge_zero)
    then show ?thesis using nn fx fy assms(1) by (simp add: float_div_def)
  qed
qed

lemma float_neg_antimono: "float_le x y \<Longrightarrow> float_le (float_neg y) (float_neg x)"
  by (cases x; cases y) (auto simp add: float_le_def)

lemma float_neg_not_NaN: "x \<noteq> NaN \<Longrightarrow> float_neg x \<noteq> NaN"
  by (cases x) auto

lemma float_add_not_NaN:
  "a \<noteq> NaN \<Longrightarrow> \<not> is_inf a \<Longrightarrow> b \<noteq> NaN \<Longrightarrow> float_add a b \<noteq> NaN"
  by (cases b) (auto simp add: float_add_def Let_def to_double_not_NaN)

lemma float_add_inf_right:
  "a \<noteq> NaN \<Longrightarrow> \<not> is_inf a \<Longrightarrow> is_inf b \<Longrightarrow> float_add a b = b"
  by (cases b) (auto simp add: float_add_def)

lemma float_add_mono_right:
  assumes "a \<noteq> NaN" "\<not> is_inf a" "float_le b1 b2"
  shows "float_le (float_add a b1) (float_add a b2)"
proof -
  have nn: "b1 \<noteq> NaN" "b2 \<noteq> NaN" using assms(3) by (simp_all add: float_le_def)
  show ?thesis
  proof (cases "is_inf b1 \<or> is_inf b2")
    case True
    have n1: "float_add a b1 \<noteq> NaN" and n2: "float_add a b2 \<noteq> NaN"
      using assms nn by (simp_all add: float_add_not_NaN)
    consider "b1 = NInf" | "b2 = PInf" using True assms(3)
      by (cases b1; cases b2) (auto simp add: float_le_def)
    then show ?thesis
    proof cases
      case 1
      then have "float_add a b1 = NInf" using assms by (simp add: float_add_inf_right)
      then show ?thesis using n2 by (cases "float_add a b2") (auto simp add: float_le_def)
    next
      case 2
      then have "float_add a b2 = PInf" using assms by (simp add: float_add_inf_right)
      then show ?thesis using n1 by (cases "float_add a b1") (auto simp add: float_le_def)
    qed
  next
    case False
    then have f1: "\<not> is_inf b1" and f2: "\<not> is_inf b2" by simp_all
    have v: "fval b1 \<le> fval b2" using assms(3) f1 f2 by (cases b1; cases b2) (auto simp add: float_le_def)
    define r1 where "r1 = fval a + fval b1"
    define r2 where "r2 = fval a + fval b2"
    define n1 where "n1 = (if r1 = 0 then is_neg a \<and> is_neg b1 else r1 < 0)"
    define n2 where "n2 = (if r2 = 0 then is_neg a \<and> is_neg b2 else r2 < 0)"
    have s1: "(if n1 then - \<bar>r1\<bar> else \<bar>r1\<bar>) = r1" by (auto simp add: n1_def)
    have s2: "(if n2 then - \<bar>r2\<bar> else \<bar>r2\<bar>) = r2" by (auto simp add: n2_def)
    have "r1 \<le> r2" using v by (simp add: r1_def r2_def)
    then have "float_le (to_double n1 \<bar>r1\<bar>) (to_double n2 \<bar>r2\<bar>)"
      by (intro to_double_mono) (simp_all only: s1 s2 abs_ge_zero)
    moreover have "float_add a b1 = to_double n1 \<bar>r1\<bar>"
      using assms(1,2) nn f1 by (simp add: float_add_def Let_def n1_def r1_def)
    moreover have "float_add a b2 = to_double n2 \<bar>r2\<bar>"
      using assms(1,2) nn f2 by (simp add: float_add_def Let_def n2_def r2_def)
    ultimately show ?thesis by simp
  qed
qed

lemma py_max_mono_left:
  "c \<noteq> NaN \<Longrightarrow> float_le x y \<Longrightarrow> float_le (py_max x c) (py_max y c)"
  by (auto simp add: py_max_def float_le_def float_lt_def)

lemma py_max_mono_right:
  "c \<noteq> NaN \<Longrightarrow> float_le x y \<Longrightarrow> float_le (py_max c x) (py_max c y)"
  by (auto simp add: py_max_def float_le_def float_lt_def)

lemma py_min_mono_left:
  "c \<noteq> NaN \<Longrightarrow> float_le x y \<Longrightarrow> float_le (py_min x c) (py_min y c)"
  by (auto simp add: py_min_def float_le_def float_lt_def)

section \<open>Properties of the calculator\<close>

subsection \<open>Monotonicity\<close>

text \<open>
  The solar score is NaN for a NaN input and lies between 0 and 100 otherwise; the AQI
  score is never NaN. Half the solar score is then finite, so adding half the AQI score,
  which may be infinite, never meets an infinity of the other sign.
\<close>

lemma solar_score_mono:
  assumes "float_le s1 s2"
  shows "float_le (solar_score s1) (solar_score s2)"
proof -
  have "float_le (float_div s1 (Fin 5)) (float_div s2 (Fin 5))"
    using assms by (intro float_div_const_mono) simp_all
  then have "float_le (float_mul (float_div s1 (Fin 5)) (Fin 100)) (float_mul (float_div s2 (Fin 5)) (Fin 100))"
    by (intro float_mul_const_mono) simp_all
  then have "float_le (py_max (float_mul (float_div s1 (Fin 5)) (Fin 100)) (Fin 0))
                      (py_max (float_mul (float_div s2 (Fin 5)) (Fin 100)) (Fin 0))"
    by (intro py_max_mono_left) simp_all
  then show ?thesis unfolding solar_score_def by (intro py_min_mono_left) simp_all
qed

lemma aqi_score_antimono:
  assumes "float_le a1 a2"
  shows "float_le (aqi_score a2) (aqi_score a1)"
proof -
  have "float_le (float_neg a2) (float_neg a1)" using assms by (rule float_neg_antimono)
  then have "float_le (float_sub (Fin 100) a2) (float_sub (Fin 100) a1)"
    unfolding float_sub_def by (intro float_add_mono_right) simp_all
  then show ?thesis unfolding aqi_score_def by (intro py_max_mono_right) simp_all
qed

lemma aqi_score_nonneg: "float_le (Fin 0) (aqi_score a)"
  by (auto simp add: aqi_score_def py_max_def float_le_def float_lt_def)

lemma aqi_score_not_NaN: "aqi_score a \<noteq> NaN"
  using aqi_score_nonneg [of a] by (simp add: float_le_def)

lemma solar_score_NaN: "solar_score NaN = NaN"
  by (simp add: solar_score_def float_div_def float_mul_def py_max_def py_min_def float_lt_def)

lemma solar_score_range:
  assumes "s \<noteq> NaN"
  shows "float_le (Fin 0) (solar_score s) \<and> float_le (solar_score s) (Fin 100)"
proof -
  have "float_div s (Fin 5) \<noteq> NaN" using assms by (cases s) (auto simp add: float_div_def to_double_not_NaN)
  then have "float_mul (float_div s (Fin 5)) (Fin 100) \<noteq> NaN" by (intro float_mul_const_not_NaN) simp_all
  then show ?thesis
    by (auto simp add: solar_score_def py_max_def py_min_def float_le_def float_lt_def)
qed

lemma binade_50: "binade 50 = 5"
  by (rule binade_unique) simp_all

lemma half_score_finite:
  assumes "float_le (Fin 0) x" "float_le x (Fin 100)"
  shows "\<not> is_inf (float_mul (Fin (1 / 2)) x) \<and> float_mul (Fin (1 / 2)) x \<noteq> NaN"
proof -
  have nx: "x \<noteq> NaN" "\<not> is_inf x" and v: "0 \<le> fval x" "fval x \<le> 100"
    using assms by (cases x; auto simp add: float_le_def)+
  define m where "m = \<bar>1 / 2 * fval x\<bar>"
  have m: "0 \<le> m" "m \<le> 50" using v by (simp_all add: m_def)
  have eq: "float_mul (Fin (1 / 2)) x = to_double (is_neg x) m"
    using nx by (simp add: float_mul_def m_def)
  have "binade (round_mag m) < 1024"
  proof (cases "m = 0")
    case True
    then show ?thesis by (simp add: round_mag_def binade_0)
  next
    case False
    then have pos: "0 < m" using m by simp
    then have "binade m \<le> binade 50" using m(2) by (rule binade_mono)
    then have "binade m < 1023" by (simp add: binade_50)
    with pos show ?thesis by (rule no_overflow)
  qed
  then show ?thesis by (simp add: eq is_inf_to_double to_double_not_NaN)
qed

lemma half_aqi_not_NaN: "float_mul (Fin (1 / 2)) (aqi_score a) \<noteq> NaN"
  using float_mul_const_not_NaN [of "1 / 2" "aqi_score a"] aqi_score_not_NaN [of a]
  by (simp add: float_mul_commute)

lemma half_mono: "float_le x y \<Longrightarrow> float_le (float_mul (Fin (1 / 2)) x) (float_mul (Fin (1 / 2)) y)"
  using float_mul_const_mono [of "1 / 2" x y] by (simp add: float_mul_commute)

lemma combined_score_NaN: "combined_score NaN a = NaN"
  by (simp add: combined_score_def solar_score_NaN float_mul_def float_add_def)

lemma combined_score_mono_solar:
  assumes "float_le s1 s2"
  shows "float_le (combined_score s1 a) (combined_score s2 a)"
proof -
  define b where "b = float_mul (Fin (1 / 2)) (aqi_score a)"
  define a1 where "a1 = float_mul (Fin (1 / 2)) (solar_score s1)"
  define a2 where "a2 = float_mul (Fin (1 / 2)) (solar_score s2)"
  have nn: "s1 \<noteq> NaN" "s2 \<noteq> NaN" using assms by (simp_all add: float_le_def)
  have b: "b \<noteq> NaN" unfolding b_def by (rule half_aqi_not_NaN)
  have f1: "\<not> is_inf a1" "a1 \<noteq> NaN"
    unfolding a1_def using half_score_finite solar_score_range [OF nn(1)] by simp_all
  have f2: "\<not> is_inf a2" "a2 \<noteq> NaN"
    unfolding a2_def using half_score_finite solar_score_range [OF nn(2)] by simp_all
  have le: "float_le a1 a2" unfolding a1_def a2_def using assms by (intro half_mono solar_score_mono)
  have "float_le (float_add a1 b) (float_add a2 b)"
  proof (cases "is_inf b")
    case True
    then have "float_add b a1 = b" "float_add b a2 = b" 
      using f1 f2 by (simp_all add: float_add_commute [of b] float_add_inf_right)
    then show ?thesis using b by (simp add: float_add_commute [of _ b] float_le_refl)
  next
    case False
    then have "float_le (float_add b a1) (float_add b a2)" using b le by (intro float_add_mono_right)
    then show ?thesis by (simp add: float_add_commute [of _ b])
  qed
  then show ?thesis by (simp add: combined_score_def a1_def a2_def b_def)
qed

lemma combined_score_antimono_aqi:
  assumes "float_le a1 a2" "s \<noteq> NaN"
  shows "float_le (combined_score s a2) (combined_score s a1)"
proof -
  define x where "x = float_mul (Fin (1 / 2)) (solar_score s)"
  have x: "\<not> is_inf x" "x \<noteq> NaN"
    unfolding x_def using half_score_finite solar_score_range [OF assms(2)] by simp_all
  have "float_le (float_mul (Fin (1 / 2)) (aqi_score a2)) (float_mul (Fin (1 / 2)) (aqi_score a1))"
    using assms(1) by (intro half_mono aqi_score_antimono)
  then show ?thesis unfolding combined_score_def x_def [symmetric] using x
    by (intro float_add_mono_right)
qed

lemma years_mono:
  assumes "float_le (combined_score s1 a1) (combined_score s2 a2)"
  shows "snd (calculate_livability_score s1 a1) \<le> snd (calculate_livability_score s2 a2)"
  using assms by (auto simp add: calculate_livability_score_def float_ge_def float_le_def)

subsection \<open>The AQI score above 100\<close>








section \<open>Properties of the requester and the endpoint\<close>

subsection \<open>Extracting the text\<close>

text \<open>
  When a key of the path is missing, the default of \<^verbatim>\<open>.get\<close> leads to the fallback text.
  When the list under \<open>candidates\<close> or under \<open>parts\<close> is empty, \<^verbatim>\<open>[0]\<close> raises.
\<close>

lemma extract_text_missing_candidates:
  "map_of kvs ''candidates'' = None \<Longrightarrow>
     extract_text (PDict kvs) = Inr (PStr ''No AI analysis returned.'')"
  by (simp add: extract_text_def and_then_def)

lemma extract_text_missing_content:
  "map_of kvs ''candidates'' = Some (PList (PDict c # cs)) \<Longrightarrow> map_of c ''content'' = None \<Longrightarrow>
     extract_text (PDict kvs) = Inr (PStr ''No AI analysis returned.'')"
  by (simp add: extract_text_def and_then_def)

lemma extract_text_missing_parts:
  "map_of kvs ''candidates'' = Some (PList (PDict c # cs)) \<Longrightarrow>
   map_of c ''content'' = Some (PDict ct) \<Longrightarrow> map_of ct ''parts'' = None \<Longrightarrow>
     extract_text (PDict kvs) = Inr (PStr ''No AI analysis returned.'')"
  by (simp add: extract_text_def and_then_def)

lemma extract_text_missing_text:
  "map_of kvs ''candidates'' = Some (PList (PDict c # cs)) \<Longrightarrow>
   map_of c ''content'' = Some (PDict ct) \<Longrightarrow>
   map_of ct ''parts'' = Some (PList (PDict p # ps)) \<Longrightarrow> map_of p ''text'' = None \<Longrightarrow>
     extract_text (PDict kvs) = Inr (PStr ''No AI analysis returned.'')"
  by (simp add: extract_text_def and_then_def)

lemma extract_text_present:
  "map_of kvs ''candidates'' = Some (PList (PDict c # cs)) \<Longrightarrow>
   map_of c ''content'' = Some (PDict ct) \<Longrightarrow>
   map_of ct ''parts'' = Some (PList (PDict p # ps)) \<Longrightarrow> map_of p ''text'' = Some t \<Longrightarrow>
     extract_text (PDict kvs) = Inr t"
  by (simp add: extract_text_def and_then_def)

lemma extract_text_empty_candidates:
  "map_of kvs ''candidates'' = Some (PList []) \<Longrightarrow>
     extract_text (PDict kvs) = Inl (PyExc ''IndexError'' ''list index out of range'')"
  by (simp add: extract_text_def and_then_def)

lemma extract_text_empty_parts:
  "map_of kvs ''candidates'' = Some (PList (PDict c # cs)) \<Longrightarrow>
   map_of c ''content'' = Some (PDict ct) \<Longrightarrow> map_of ct ''parts'' = Some (PList []) \<Longrightarrow>
     extract_text (PDict kvs) = Inl (PyExc ''IndexError'' ''list index out of range'')"
  by (simp add: extract_text_def and_then_def)

subsection \<open>The requester\<close>

lemma try_block_failures:
  "try_block (Post_Raised e) = Inl e"
  "\<not> (200 \<le> status_code r \<and> status_code r \<le> 299) \<Longrightarrow> try_block (Responded r) = Inl (status_error r)"
  "200 \<le> status_code r \<Longrightarrow> status_code r \<le> 299 \<Longrightarrow> json r = Inl e \<Longrightarrow>
     try_block (Responded r) = Inl e"
  "200 \<le> status_code r \<Longrightarrow> status_code r \<le> 299 \<Longrightarrow> json r = Inr body \<Longrightarrow>
     try_block (Responded r) = extract_text body"
  by (auto simp add: try_block_def and_then_def)

lemma ask_without_key:
  assumes "environ w ''GEMINI_API_KEY'' = None \<or> environ w ''GEMINI_API_KEY'' = Some []"
  shows "ask_gemini_analysis fmt w lat lon solar aqi img =
           (Inr (PStr ''GEMINI_API_KEY not set. Skipping AI analysis.''), w)"
  using assms by (auto simp add: ask_gemini_analysis_def)

lemma ask_with_key:
  assumes "environ w ''GEMINI_API_KEY'' = Some key" "key \<noteq> []"
  shows "ask_gemini_analysis fmt w lat lon solar aqi img =
           (case try_block (remote w (gemini_request key (prompt_text fmt lat lon solar aqi img) img)) of
              Inr analysis \<Rightarrow> Inr analysis
            | Inl e \<Rightarrow> Inr (PStr (''Failed to get Gemini AI analysis: '' @ exc_str e)),
            w\<lparr>sent := sent w @ [gemini_request key (prompt_text fmt lat lon solar aqi img) img]\<rparr>)"
  using assms by (simp add: ask_gemini_analysis_def Let_def split: sum.splits)


lemma ask_failure_text:
  assumes "environ w ''GEMINI_API_KEY'' = Some key" "key \<noteq> []"
    and "try_block (remote w (gemini_request key (prompt_text fmt lat lon solar aqi img) img)) = Inl e"
  shows "fst (ask_gemini_analysis fmt w lat lon solar aqi img) =
           Inr (PStr (''Failed to get Gemini AI analysis: '' @ exc_str e))"
  using assms by (simp add: ask_with_key)

subsection \<open>The endpoint\<close>

lemma invalid_parameters_Nil:
  "invalid_parameters lat lon = [] \<longleftrightarrow>
     float_le (Fin (- 90)) lat \<and> float_le lat (Fin 90)
     \<and> float_le (Fin (- 180)) lon \<and> float_le lon (Fin 180)"
  by (auto simp add: invalid_parameters_def query_ge_le_def float_ge_def)

lemma get_livability_score_valid:
  assumes "invalid_parameters lat lon = []"
  shows "get_livability_score fmt w lat lon solar aqi =
     (case fst (ask_gemini_analysis fmt w lat lon solar aqi None) of
        Inl e \<Rightarrow> Inl (Raised e)
      | Inr analysis \<Rightarrow>
          Inr \<lparr>location_latitude = lat,
               location_longitude = lon,
               solar_radiation_score = solar,
               air_quality_index = aqi,
               calculated_livability_score = fst (calculate_livability_score solar aqi),
               estimated_habitable_years = snd (calculate_livability_score solar aqi),
               gemini_analysis = analysis,
               data_source = ''Solar Radiation + AQI dataset + Eco Prediction Insight''\<rparr>,
      snd (ask_gemini_analysis fmt w lat lon solar aqi None))"
  using assms by (simp add: get_livability_score_def Let_def split: prod.splits sum.splits)

section \<open>The claims\<close>

subsection \<open>The score calculator\<close>

text \<open>
  Claim C1. For every pair of floats \<open>solar\<close> and \<open>aqi\<close>, the calculator's solar score is
  \<^verbatim>\<open>solar / 5 * 100\<close> clamped to the interval from 0 to 100: it is 0 when that product is
  below 0, 100 when it is above 100, and the product itself otherwise, so it lies in the
  interval unless it is NaN. The AQI score is the greater of 0 and \<^verbatim>\<open>100 - aqi\<close>: it is
  that difference when the difference is above 0 and 0 otherwise, so it is at least 0 and
  at least the difference. The combined score is \<^verbatim>\<open>0.5 * solar_score + 0.5 * aqi_score\<close>.
\<close>

theorem calculate_scores:
  "(float_lt (float_mul (float_div solar (Fin 5)) (Fin 100)) (Fin 0) \<longrightarrow>
      solar_score solar = Fin 0)
   \<and> (float_lt (Fin 100) (float_mul (float_div solar (Fin 5)) (Fin 100)) \<longrightarrow>
        solar_score solar = Fin 100)
   \<and> (\<not> float_lt (float_mul (float_div solar (Fin 5)) (Fin 100)) (Fin 0)
        \<and> \<not> float_lt (Fin 100) (float_mul (float_div solar (Fin 5)) (Fin 100)) \<longrightarrow>
        solar_score solar = float_mul (float_div solar (Fin 5)) (Fin 100))
   \<and> (float_mul (float_div solar (Fin 5)) (Fin 100) \<noteq> NaN \<longrightarrow>
        float_le (Fin 0) (solar_score solar) \<and> float_le (solar_score solar) (Fin 100))
   \<and> (float_lt (Fin 0) (float_sub (Fin 100) aqi) \<longrightarrow>
        aqi_score aqi = float_sub (Fin 100) aqi)
   \<and> (\<not> float_lt (Fin 0) (float_sub (Fin 100) aqi) \<longrightarrow> aqi_score aqi = Fin 0)
   \<and> float_le (Fin 0) (aqi_score aqi)
   \<and> (float_sub (Fin 100) aqi \<noteq> NaN \<longrightarrow> float_le (float_sub (Fin 100) aqi) (aqi_score aqi))
   \<and> combined_score solar aqi =
       float_add (float_mul (Fin (1 / 2)) (solar_score solar))
                 (float_mul (Fin (1 / 2)) (aqi_score aqi))"
  by (auto simp add: solar_score_def aqi_score_def combined_score_def py_max_def py_min_def
      float_lt_def float_le_def)

text \<open>
  The three cases of the clamp and the two of the maximum, at \<open>solar = 2.5\<close>, \<open>7\<close>, \<open>-1\<close> and
  \<open>aqi = 50\<close>, \<open>130\<close>.
\<close>

theorem calculate_scores_witness:
  "solar_score (Fin (5 / 2)) = Fin 50 \<and> aqi_score (Fin 50) = Fin 50
   \<and> combined_score (Fin (5 / 2)) (Fin 50) = Fin 50
   \<and> solar_score (Fin 7) = Fin 100 \<and> solar_score (Fin (- 1)) = Fin 0
   \<and> aqi_score (Fin 130) = Fin 0"
proof -
  have v: "float_mul (float_div (Fin (5 / 2)) (Fin 5)) (Fin 100) = Fin 50" by code_simp
  have d: "float_sub (Fin 100) (Fin 50) = Fin 50" by code_simp
  have v7: "float_mul (float_div (Fin 7) (Fin 5)) (Fin 100) = Fin 140" by code_simp
  have vm: "float_mul (float_div (Fin (- 1)) (Fin 5)) (Fin 100) = Fin (- 20)" by code_simp
  have d130: "float_sub (Fin 100) (Fin 130) = Fin (- 30)" by code_simp
  have h: "float_add (float_mul (Fin (1 / 2)) (Fin 50)) (float_mul (Fin (1 / 2)) (Fin 50)) = Fin 50"
    by code_simp
  have s: "solar_score (Fin (5 / 2)) = Fin 50" and a: "aqi_score (Fin 50) = Fin 50"
    using calculate_scores [of "Fin (5 / 2)" "Fin 50"] unfolding v d
    by (simp_all add: float_lt_def)
  have "combined_score (Fin (5 / 2)) (Fin 50) =
          float_add (float_mul (Fin (1 / 2)) (solar_score (Fin (5 / 2))))
                    (float_mul (Fin (1 / 2)) (aqi_score (Fin 50)))"
    using calculate_scores [of "Fin (5 / 2)" "Fin 50"] by blast
  then have c: "combined_score (Fin (5 / 2)) (Fin 50) = Fin 50"
    by (simp only: s a h)
  have s7: "solar_score (Fin 7) = Fin 100" and a130: "aqi_score (Fin 130) = Fin 0"
    using calculate_scores [of "Fin 7" "Fin 130"] unfolding v7 d130
    by (simp_all add: float_lt_def)
  have sm: "solar_score (Fin (- 1)) = Fin 0"
    using calculate_scores [of "Fin (- 1)" "Fin 130"] unfolding vm d130
    by (simp add: float_lt_def)
  from s a c s7 sm a130 show ?thesis by simp
qed

text \<open>
  Claim C2. For every pair of floats, the calculator classifies the combined score by
  fixed thresholds whose lower bounds are inclusive: a combined score of at least 70
  yields \<open>High\<close> and 80 years, one of at least 40 and below 70 yields \<open>Medium\<close> and 50, one
  below 40 yields \<open>Low\<close> and 20; a combined score of exactly 70 yields \<open>High\<close> and one of
  exactly 40 yields \<open>Medium\<close>.
\<close>

theorem calculate_thresholds:
  "(float_ge (combined_score solar aqi) (Fin 70) \<longrightarrow>
      calculate_livability_score solar aqi = (''High'', 80))
   \<and> (float_ge (combined_score solar aqi) (Fin 40) \<and> float_lt (combined_score solar aqi) (Fin 70) \<longrightarrow>
        calculate_livability_score solar aqi = (''Medium'', 50))
   \<and> (float_lt (combined_score solar aqi) (Fin 40) \<longrightarrow>
        calculate_livability_score solar aqi = (''Low'', 20))
   \<and> (combined_score solar aqi = Fin 70 \<longrightarrow>
        calculate_livability_score solar aqi = (''High'', 80))
   \<and> (combined_score solar aqi = Fin 40 \<longrightarrow>
        calculate_livability_score solar aqi = (''Medium'', 50))"
  by (auto simp add: calculate_livability_score_def float_ge_def float_le_def float_lt_def)

text \<open>
  Inputs whose combined score is exactly 70, exactly 40, just below 40 (39.9990234375)
  and 50.
\<close>

theorem calculate_thresholds_witness:
  "combined_score (Fin 5) (Fin 60) = Fin 70
   \<and> calculate_livability_score (Fin 5) (Fin 60) = (''High'', 80)
   \<and> combined_score (Fin 0) (Fin 20) = Fin 40
   \<and> calculate_livability_score (Fin 0) (Fin 20) = (''Medium'', 50)
   \<and> combined_score (Fin 0) (Fin (10241 / 512)) = Fin (40959 / 1024)
   \<and> calculate_livability_score (Fin 0) (Fin (10241 / 512)) = (''Low'', 20)
   \<and> combined_score (Fin (5 / 2)) (Fin 50) = Fin 50
   \<and> calculate_livability_score (Fin (5 / 2)) (Fin 50) = (''Medium'', 50)"
proof -
  have c70: "combined_score (Fin 5) (Fin 60) = Fin 70" by code_simp
  have c40: "combined_score (Fin 0) (Fin 20) = Fin 40" by code_simp
  have c39: "combined_score (Fin 0) (Fin (10241 / 512)) = Fin (40959 / 1024)" by code_simp
  have c50: "combined_score (Fin (5 / 2)) (Fin 50) = Fin 50" by code_simp
  have r70: "calculate_livability_score (Fin 5) (Fin 60) = (''High'', 80)"
    using calculate_thresholds [of "Fin 5" "Fin 60"] unfolding c70 by simp
  have r40: "calculate_livability_score (Fin 0) (Fin 20) = (''Medium'', 50)"
    using calculate_thresholds [of "Fin 0" "Fin 20"] unfolding c40 by simp
  have r39: "calculate_livability_score (Fin 0) (Fin (10241 / 512)) = (''Low'', 20)"
    using calculate_thresholds [of "Fin 0" "Fin (10241 / 512)"] unfolding c39
    by (simp add: float_lt_def)
  have r50: "calculate_livability_score (Fin (5 / 2)) (Fin 50) = (''Medium'', 50)"
    using calculate_thresholds [of "Fin (5 / 2)" "Fin 50"] unfolding c50
    by (simp add: float_lt_def float_ge_def float_le_def)
  from c70 r70 c40 r40 c39 r39 c50 r50 show ?thesis by simp
qed




text \<open>
  Claim C10. The calculator is monotone. For a fixed \<open>aqi\<close>, a greater \<open>solar\<close> never gives
  a smaller combined score; for a fixed \<open>solar\<close>, a greater \<open>aqi\<close> never gives a greater
  combined score (when \<open>solar\<close> is NaN the combined score is NaN for every \<open>aqi\<close>). The
  returned number of habitable years is non-decreasing in \<open>solar\<close> and non-increasing in
  \<open>aqi\<close>.
\<close>

theorem calculate_monotone:
  "(float_le s1 s2 \<longrightarrow>
      float_le (combined_score s1 a) (combined_score s2 a)
      \<and> snd (calculate_livability_score s1 a) \<le> snd (calculate_livability_score s2 a))
   \<and> (float_le a1 a2 \<longrightarrow>
      \<not> float_lt (combined_score s a1) (combined_score s a2)
      \<and> (s \<noteq> NaN \<longrightarrow> float_le (combined_score s a2) (combined_score s a1))
      \<and> snd (calculate_livability_score s a2) \<le> snd (calculate_livability_score s a1))"
proof (intro conjI impI)
  assume "float_le s1 s2"
  then show le: "float_le (combined_score s1 a) (combined_score s2 a)"
    by (rule combined_score_mono_solar)
  then show "snd (calculate_livability_score s1 a) \<le> snd (calculate_livability_score s2 a)"
    by (rule years_mono)
next
  assume "float_le a1 a2" "s \<noteq> NaN"
  then show "float_le (combined_score s a2) (combined_score s a1)"
    by (rule combined_score_antimono_aqi)
next
  assume le: "float_le a1 a2"
  show "\<not> float_lt (combined_score s a1) (combined_score s a2)"
  proof (cases "s = NaN")
    case True
    then show ?thesis by (simp add: combined_score_NaN float_lt_def)
  next
    case False
    with le have "float_le (combined_score s a2) (combined_score s a1)"
      by (rule combined_score_antimono_aqi)
    then show ?thesis by (rule float_le_not_lt)
  qed
  show "snd (calculate_livability_score s a2) \<le> snd (calculate_livability_score s a1)"
  proof (cases "s = NaN")
    case True
    then show ?thesis by (simp add: calculate_livability_score_def combined_score_NaN)
  next
    case False
    with le have "float_le (combined_score s a2) (combined_score s a1)"
      by (rule combined_score_antimono_aqi)
    then show ?thesis by (rule years_mono)
  qed
qed

text \<open>From \<open>solar = 1\<close> to \<open>4\<close> at \<open>aqi = 50\<close>, and from \<open>aqi = 20\<close> to \<open>90\<close> at \<open>solar = 3\<close>.\<close>

theorem calculate_monotone_witness:
  "float_le (Fin 1) (Fin 4) \<and> float_le (Fin 20) (Fin 90)
   \<and> float_le (combined_score (Fin 1) (Fin 50)) (combined_score (Fin 4) (Fin 50))
   \<and> snd (calculate_livability_score (Fin 1) (Fin 50))
       \<le> snd (calculate_livability_score (Fin 4) (Fin 50))
   \<and> float_le (combined_score (Fin 3) (Fin 90)) (combined_score (Fin 3) (Fin 20))
   \<and> snd (calculate_livability_score (Fin 3) (Fin 90))
       \<le> snd (calculate_livability_score (Fin 3) (Fin 20))"
proof -
  have h: "float_le (Fin 1) (Fin 4)" "float_le (Fin 20) (Fin 90)" "Fin 3 \<noteq> NaN"
    by (simp_all add: float_le_def)
  with calculate_monotone [of "Fin 1" "Fin 4" "Fin 50" "Fin 20" "Fin 90" "Fin 3"]
  show ?thesis by simp
qed

subsection \<open>The explanation requester\<close>

text \<open>
  Claim C3. When the call succeeds and the body's \<open>candidates\<close> field is an empty list,
  the claim expects the text \<open>No AI analysis returned.\<close>; the function returns the failure
  text of the \<^verbatim>\<open>IndexError\<close> that \<^verbatim>\<open>[0]\<close> raises on the empty list. The fallback is what the
  function returns when a key of the path is missing (lemmas \<open>extract_text_missing_candidates\<close>
  to \<open>extract_text_missing_text\<close>), not when a list of the path is empty.
\<close>

theorem empty_candidates_reply:
  "fst (ask_gemini_analysis (\<lambda>x. ''0.0'')
          (world_with (Some ''k'') (reply (PDict [(''candidates'', PList [])])))
          (Fin 0) (Fin 0) (Fin 0) (Fin 0) None)
     = Inr (PStr ''Failed to get Gemini AI analysis: list index out of range'')
   \<and> fst (ask_gemini_analysis (\<lambda>x. ''0.0'')
          (world_with (Some ''k'') (reply (PDict [(''candidates'', PList [])])))
          (Fin 0) (Fin 0) (Fin 0) (Fin 0) None)
     \<noteq> Inr (PStr ''No AI analysis returned.'')"
  by (simp add: ask_gemini_analysis_def world_with_def reply_def try_block_def extract_text_def
      and_then_def)

text \<open>
  Claim C5. For every input, if the credential \<^verbatim>\<open>GEMINI_API_KEY\<close> is not configured (the
  variable is unset, or set to the empty string), the requester returns the text
  \<open>GEMINI_API_KEY not set. Skipping AI analysis.\<close> and leaves the world as it was: no
  outbound call is made.
\<close>

theorem no_credential_no_call:
  assumes "environ w ''GEMINI_API_KEY'' = None \<or> environ w ''GEMINI_API_KEY'' = Some []"
  shows "ask_gemini_analysis fmt w lat lon solar aqi img =
           (Inr (PStr ''GEMINI_API_KEY not set. Skipping AI analysis.''), w)"
  using assms by (rule ask_without_key)

text \<open>A world without the variable, and one where it is the empty string.\<close>

theorem no_credential_no_call_witness:
  "environ (world_with None (reply (PDict []))) ''GEMINI_API_KEY'' = None
   \<and> ask_gemini_analysis (\<lambda>x. ''0.0'') (world_with None (reply (PDict [])))
         (Fin 0) (Fin 0) (Fin 0) (Fin 0) None
       = (Inr (PStr ''GEMINI_API_KEY not set. Skipping AI analysis.''),
          world_with None (reply (PDict [])))
   \<and> sent (snd (ask_gemini_analysis (\<lambda>x. ''0.0'') (world_with (Some []) (reply (PDict [])))
         (Fin 0) (Fin 0) (Fin 0) (Fin 0) (Some ''aGVsbG8=''))) = []"
proof -
  have h1: "environ (world_with None (reply (PDict []))) ''GEMINI_API_KEY'' = None"
    by (simp add: world_with_def)
  have h2: "environ (world_with (Some []) (reply (PDict []))) ''GEMINI_API_KEY'' = Some []"
    by (simp add: world_with_def)
  have "sent (world_with (Some []) (reply (PDict []))) = []" by (simp add: world_with_def)
  with h1 h2 show ?thesis
    using no_credential_no_call [of "world_with None (reply (PDict []))"]
      no_credential_no_call [of "world_with (Some []) (reply (PDict []))"]
    by simp
qed

text \<open>
  Claim C6. The requester never raises (lemma \<open>ask_never_raises\<close>), and when the call
  or the processing of the response fails it returns the text that starts with
  \<open>Failed to get Gemini AI analysis: \<close> and ends with the error detail (lemmas
  \<open>ask_failure_text\<close> and \<open>try_block_failures\<close>). What it returns is not a string for every
  outcome of the call, as the claim and the annotation \<^verbatim>\<open>-> str\<close> say: when the body
  carries a number under \<open>text\<close>, that number is returned.
\<close>

theorem non_string_text_returned:
  "fst (ask_gemini_analysis (\<lambda>x. ''0.0'')
          (world_with (Some ''k'')
             (reply (PDict [(''candidates'',
                PList [PDict [(''content'',
                  PDict [(''parts'', PList [PDict [(''text'', PInt 42)]])])]])])))
          (Fin 0) (Fin 0) (Fin 0) (Fin 0) None)
     = Inr (PInt 42)"
  by (simp add: ask_gemini_analysis_def world_with_def reply_def try_block_def extract_text_def
      and_then_def)

text \<open>
  Claim C7. The outbound request is built from \<open>lat\<close>, \<open>lon\<close>, \<open>solar\<close>, \<open>aqi\<close> and the
  optional image only. The one request the endpoint sends has the URL with the key, the
  content-type header, and a payload whose only text is the prompt made of the four
  formatted inputs and fixed sentences; the label and the habitable years that the
  calculator returned occur nowhere in it. The request the requester sends for any image
  is \<open>gemini_request\<close> of the key, the prompt and the image.
\<close>

theorem request_built_from_raw_inputs:
  assumes "environ w ''GEMINI_API_KEY'' = Some key" "key \<noteq> []"
    and "invalid_parameters lat lon = []"
  shows "sent (snd (get_livability_score fmt w lat lon solar aqi)) =
           sent w @
           [\<lparr>url = ''https://generativelanguage.googleapis.com/v1beta/models/gemini-2.0-flash:generateContent''
                    @ ''?key='' @ key,
              headers = [(''Content-Type'', ''application/json'')],
              json_payload =
                PDict [(''contents'', PList [PDict [(''parts'', PList [PDict [(''text'', PStr
                  (''Location: lat='' @ fmt lat @ '', lon='' @ fmt lon @ newline
                   @ ''Solar radiation score: '' @ fmt solar @ newline
                   @ ''Air quality index: '' @ fmt aqi @ newline
                   @ ''Explain the livability of this location based on these scores, ''
                   @ ''and suggest interventions or improvements. ''))]])]])],
              timeout = Fin 30\<rparr>]
         \<and> sent (snd (ask_gemini_analysis fmt w lat lon solar aqi img)) =
             sent w @ [gemini_request key (prompt_text fmt lat lon solar aqi img) img]"
  using assms
  by (simp add: get_livability_score_valid ask_with_key gemini_request_def prompt_text_def
      payload_def gemini_url_def truthy_def)

text \<open>The request sent for \<open>solar = 5\<close>, whose label is \<open>High\<close>.\<close>

theorem request_built_from_raw_inputs_witness:
  "sent (snd (get_livability_score (\<lambda>x. if x = Fin 5 then ''5.0'' else ''0.0'')
           (world_with (Some ''k'') (reply (PDict []))) (Fin 0) (Fin 0) (Fin 5) (Fin 0))) =
     [\<lparr>url = ''https://generativelanguage.googleapis.com/v1beta/models/gemini-2.0-flash:generateContent?key=k'',
       headers = [(''Content-Type'', ''application/json'')],
       json_payload =
         PDict [(''contents'', PList [PDict [(''parts'', PList [PDict [(''text'', PStr
           (''Location: lat=0.0, lon=0.0'' @ newline
            @ ''Solar radiation score: 5.0'' @ newline
            @ ''Air quality index: 0.0'' @ newline
            @ ''Explain the livability of this location based on these scores, ''
            @ ''and suggest interventions or improvements. ''))]])]])],
       timeout = Fin 30\<rparr>]"
proof -
  have h: "environ (world_with (Some ''k'') (reply (PDict []))) ''GEMINI_API_KEY'' = Some ''k''"
    "''k'' \<noteq> []" "invalid_parameters (Fin 0) (Fin 0) = []"
    "sent (world_with (Some ''k'') (reply (PDict []))) = []"
    by (simp_all add: world_with_def invalid_parameters_Nil float_le_def)
  from request_built_from_raw_inputs [OF h(1,2,3),
      of "\<lambda>x. if x = Fin 5 then ''5.0'' else ''0.0''" "Fin 5" "Fin 0" None]
  show ?thesis by (simp add: h(4))
qed

subsection \<open>The endpoint\<close>

text \<open>
  Claim C8. A request whose latitude is not within -90 and 90, or whose longitude is not
  within -180 and 180, is rejected before the calculator or the requester runs: the
  answer is the rejection that names the offending parameters, and the world is as it
  was, so no outbound call was made.
\<close>

theorem out_of_range_rejected:
  assumes "\<not> (float_le (Fin (- 90)) lat \<and> float_le lat (Fin 90))
           \<or> \<not> (float_le (Fin (- 180)) lon \<and> float_le lon (Fin 180))"
  shows "invalid_parameters lat lon \<noteq> []
         \<and> get_livability_score fmt w lat lon solar aqi =
             (Inl (Rejected (invalid_parameters lat lon)), w)"
proof -
  have "invalid_parameters lat lon \<noteq> []" using assms by (simp add: invalid_parameters_Nil)
  then show ?thesis by (simp add: get_livability_score_def)
qed

text \<open>Latitude 91, and longitude 181.\<close>

theorem out_of_range_rejected_witness:
  "\<not> float_le (Fin 91) (Fin 90) \<and> \<not> float_le (Fin 181) (Fin 180)
   \<and> get_livability_score (\<lambda>x. ''0.0'') (world_with (Some ''k'') (reply (PDict [])))
        (Fin 91) (Fin 0) (Fin 5) (Fin 0)
      = (Inl (Rejected [''lat'']), world_with (Some ''k'') (reply (PDict [])))
   \<and> get_livability_score (\<lambda>x. ''0.0'') (world_with (Some ''k'') (reply (PDict [])))
        (Fin 0) (Fin 181) (Fin 5) (Fin 0)
      = (Inl (Rejected [''lon'']), world_with (Some ''k'') (reply (PDict [])))"
proof -
  have h: "\<not> float_le (Fin 91) (Fin 90)" "\<not> float_le (Fin 181) (Fin 180)"
    by (simp_all add: float_le_def)
  have i: "invalid_parameters (Fin 91) (Fin 0) = [''lat'']"
    "invalid_parameters (Fin 0) (Fin 181) = [''lon'']"
    by (simp_all add: invalid_parameters_def query_ge_le_def float_ge_def float_le_def)
  from h out_of_range_rejected [of "Fin 91" "Fin 0" "\<lambda>x. ''0.0''"
      "world_with (Some ''k'') (reply (PDict []))" "Fin 5" "Fin 0"]
    out_of_range_rejected [of "Fin 0" "Fin 181" "\<lambda>x. ''0.0''"
      "world_with (Some ''k'') (reply (PDict []))" "Fin 5" "Fin 0"]
  show ?thesis by (simp add: i)
qed



end
